theory Spec2Isabelle
  imports Main
begin

unbundle bit_operations_syntax

section \<open>The model\<close>

subsection \<open>The exception hierarchy of \<^verbatim>\<open>beartype.roar\<close>\<close>

text \<open>
  Every class statement of \<^verbatim>\<open>roar.py\<close> is one constructor. A leading underscore of a
  private class is written \<open>Priv\<close>, since an Isabelle name starts with a letter. The
  builtin classes that the module's two roots derive from (\<^verbatim>\<open>Exception\<close> and
  \<^verbatim>\<open>UserWarning\<close>) and their builtin ancestors carry the prefix \<open>Py\<close>.
\<close>

datatype exc_class =
    Py_object
  | Py_BaseException
  | Py_Exception
  | Py_Warning
  | Py_UserWarning
  | BeartypeException
  | BeartypeCaveException
  | BeartypeCaveNoneTypeOrException
  | BeartypeCaveNoneTypeOrKeyException
  | BeartypeCaveNoneTypeOrMutabilityException
  | BeartypeDecorException
  | BeartypeDecorWrappeeException
  | BeartypeDecorWrapperException
  | BeartypeDecorHintException
  | BeartypeDecorHintNonPepException
  | BeartypeDecorHintPepException
  | BeartypeDecorHintPepUnsupportedException
  | BeartypeDecorHintPep484Exception
  | BeartypeDecorParamException
  | BeartypeDecorParamNameException
  | BeartypeDecorPepException
  | BeartypeDecorHintPep563Exception
  | BeartypeCallException
  | BeartypeCallCheckException
  | BeartypeCallCheckUnavailableTypeException
  | BeartypeCallCheckPepException
  | BeartypeCallCheckPepParamException
  | BeartypeCallCheckPepReturnException
  | BeartypeCallCheckNonPepException
  | BeartypeCallCheckNonPepParamException
  | BeartypeCallCheckNonPepReturnException
  | BeartypeWarning
  | Priv_BeartypeDecorBeartypistryException
  | Priv_BeartypeCallBeartypistryException
  | Priv_BeartypeUtilException
  | Priv_BeartypeUtilRaisePepException
  | Priv_BeartypeUtilRaisePepDesynchronizationException
  | Priv_BeartypeUtilCachedException
  | Priv_BeartypeUtilCachedCallableException
  | Priv_BeartypeUtilCachedFixedListException
  | Priv_BeartypeUtilCachedObjectTypedException

text \<open>
  The base named in each class statement (every class of the module has exactly one).
  The builtin chain is Python's: \<^verbatim>\<open>UserWarning\<close>, \<^verbatim>\<open>Warning\<close>, \<^verbatim>\<open>Exception\<close>,
  \<^verbatim>\<open>BaseException\<close>, \<^verbatim>\<open>object\<close>.
\<close>

fun base :: "exc_class \<Rightarrow> exc_class option" where
  "base Py_object = None"
| "base Py_BaseException = Some Py_object"
| "base Py_Exception = Some Py_BaseException"
| "base Py_Warning = Some Py_Exception"
| "base Py_UserWarning = Some Py_Warning"
| "base BeartypeException = Some Py_Exception"
| "base BeartypeCaveException = Some BeartypeException"
| "base BeartypeCaveNoneTypeOrException = Some BeartypeCaveException"
| "base BeartypeCaveNoneTypeOrKeyException = Some BeartypeCaveNoneTypeOrException"
| "base BeartypeCaveNoneTypeOrMutabilityException = Some BeartypeCaveNoneTypeOrException"
| "base BeartypeDecorException = Some BeartypeException"
| "base BeartypeDecorWrappeeException = Some BeartypeDecorException"
| "base BeartypeDecorWrapperException = Some BeartypeDecorException"
| "base BeartypeDecorHintException = Some BeartypeDecorException"
| "base BeartypeDecorHintNonPepException = Some BeartypeDecorHintException"
| "base BeartypeDecorHintPepException = Some BeartypeDecorHintException"
| "base BeartypeDecorHintPepUnsupportedException = Some BeartypeDecorHintPepException"
| "base BeartypeDecorHintPep484Exception = Some BeartypeDecorHintPepException"
| "base BeartypeDecorParamException = Some BeartypeDecorException"
| "base BeartypeDecorParamNameException = Some BeartypeDecorParamException"
| "base BeartypeDecorPepException = Some BeartypeDecorException"
| "base BeartypeDecorHintPep563Exception = Some BeartypeDecorPepException"
| "base BeartypeCallException = Some BeartypeException"
| "base BeartypeCallCheckException = Some BeartypeCallException"
| "base BeartypeCallCheckUnavailableTypeException = Some BeartypeCallCheckException"
| "base BeartypeCallCheckPepException = Some BeartypeCallCheckException"
| "base BeartypeCallCheckPepParamException = Some BeartypeCallCheckPepException"
| "base BeartypeCallCheckPepReturnException = Some BeartypeCallCheckPepException"
| "base BeartypeCallCheckNonPepException = Some BeartypeCallCheckException"
| "base BeartypeCallCheckNonPepParamException = Some BeartypeCallCheckNonPepException"
| "base BeartypeCallCheckNonPepReturnException = Some BeartypeCallCheckNonPepException"
| "base BeartypeWarning = Some Py_UserWarning"
| "base Priv_BeartypeDecorBeartypistryException = Some BeartypeDecorException"
| "base Priv_BeartypeCallBeartypistryException = Some BeartypeCallException"
| "base Priv_BeartypeUtilException = Some BeartypeException"
| "base Priv_BeartypeUtilRaisePepException = Some Priv_BeartypeUtilException"
| "base Priv_BeartypeUtilRaisePepDesynchronizationException =
     Some Priv_BeartypeUtilRaisePepException"
| "base Priv_BeartypeUtilCachedException = Some Priv_BeartypeUtilException"
| "base Priv_BeartypeUtilCachedCallableException = Some Priv_BeartypeUtilCachedException"
| "base Priv_BeartypeUtilCachedFixedListException = Some Priv_BeartypeUtilCachedException"
| "base Priv_BeartypeUtilCachedObjectTypedException = Some Priv_BeartypeUtilCachedException"

text \<open>
  A class is declared abstract when its class statement passes
  \<^verbatim>\<open>metaclass=_ABCMeta\<close> (these are the classes whose docstring starts
  ``Abstract base class of all''); every other class is concrete.
\<close>

fun is_abstract :: "exc_class \<Rightarrow> bool" where
  "is_abstract BeartypeException = True"
| "is_abstract BeartypeCaveException = True"
| "is_abstract BeartypeCaveNoneTypeOrException = True"
| "is_abstract BeartypeDecorException = True"
| "is_abstract BeartypeDecorHintException = True"
| "is_abstract BeartypeDecorHintPepException = True"
| "is_abstract BeartypeDecorParamException = True"
| "is_abstract BeartypeDecorPepException = True"
| "is_abstract BeartypeCallException = True"
| "is_abstract BeartypeCallCheckException = True"
| "is_abstract BeartypeCallCheckPepException = True"
| "is_abstract BeartypeCallCheckNonPepException = True"
| "is_abstract BeartypeWarning = True"
| "is_abstract Priv_BeartypeUtilException = True"
| "is_abstract Priv_BeartypeUtilCachedException = True"
| "is_abstract _ = False"

text \<open>
  The method resolution order of a class under single inheritance: the class, its base,
  the base of its base, and so on up to \<^verbatim>\<open>object\<close>. The walk takes at most as many
  steps as it is given; \<open>mro\<close> gives it one step per class of the hierarchy, and
  \<open>mro_reaches_root\<close> below shows that every walk ends at a class without a base.
\<close>

fun superclasses :: "nat \<Rightarrow> exc_class \<Rightarrow> exc_class list" where
  "superclasses 0 c = [c]"
| "superclasses (Suc n) c =
     (case base c of None \<Rightarrow> [c] | Some b \<Rightarrow> c # superclasses n b)"

definition mro :: "exc_class \<Rightarrow> exc_class list" where
  "mro c = superclasses 41 c"

text \<open>
  Python's \<^verbatim>\<open>issubclass(c, d)\<close>: \<open>d\<close> occurs in the method resolution order of \<open>c\<close>
  (no class of the module registers a virtual subclass).
\<close>

definition issubclass :: "exc_class \<Rightarrow> exc_class \<Rightarrow> bool" where
  "issubclass c d = (d \<in> set (mro c))"

text \<open>
  The phases that the docstrings give to the families: subclasses of
  \<^verbatim>\<open>BeartypeDecorException\<close> ``are raised at decoration time'', subclasses of
  \<^verbatim>\<open>BeartypeCallException\<close> ``are raised from the wrapper function'' (call time),
  and subclasses of \<^verbatim>\<open>_BeartypeUtilException\<close> ``denote critical internal issues''.
  Subclasses of \<^verbatim>\<open>BeartypeCaveException\<close> ``are raised at usage time from various
  types published by the beartype.cave submodule''.
\<close>

definition raised_at_decoration_time :: "exc_class \<Rightarrow> bool" where
  "raised_at_decoration_time c = issubclass c BeartypeDecorException"

definition raised_at_call_time :: "exc_class \<Rightarrow> bool" where
  "raised_at_call_time c = issubclass c BeartypeCallException"

definition internal_invariant_kind :: "exc_class \<Rightarrow> bool" where
  "internal_invariant_kind c = issubclass c Priv_BeartypeUtilException"

definition raised_at_cave_usage_time :: "exc_class \<Rightarrow> bool" where
  "raised_at_cave_usage_time c = issubclass c BeartypeCaveException"

text \<open>The bases, among those of the four families, that a class is a subclass of.\<close>

definition families_of :: "exc_class \<Rightarrow> exc_class list" where
  "families_of c =
     filter (issubclass c)
       [BeartypeCaveException, BeartypeDecorException, BeartypeCallException,
        Priv_BeartypeUtilException]"

subsection \<open>The raiser of call-time violations\<close>

text \<open>
  Modelled from the spec: the function \<^verbatim>\<open>raise_pep_call_exception\<close> of
  \<^verbatim>\<open>beartype._util.utilhinttest.pep.error.peperror\<close> is not among the sources; only the
  docstrings of the exception classes it raises are. By those docstrings and the spec's
  contract of \<^verbatim>\<open>explain\<close>, the raiser is called for a pith that the wrapper function
  found to violate its hint, at a check site that is a parameter or the return value. It
  type-checks the pith again: \<open>satisfies pith hint\<close> is the verdict of that second check.
  When the pith appears to satisfy the hint, it raises
  \<^verbatim>\<open>_BeartypeUtilRaisePepDesynchronizationException\<close>; otherwise it raises the
  violation of the site's kind.
\<close>

datatype check_site = Param | Return

definition raise_pep_call_exception ::
  "('pith \<Rightarrow> 'hint \<Rightarrow> bool) \<Rightarrow> check_site \<Rightarrow> 'pith \<Rightarrow> 'hint \<Rightarrow> exc_class" where
  "raise_pep_call_exception satisfies site pith hint =
     (if satisfies pith hint then Priv_BeartypeUtilRaisePepDesynchronizationException
      else (case site of
              Param \<Rightarrow> BeartypeCallCheckPepParamException
            | Return \<Rightarrow> BeartypeCallCheckPepReturnException))"

subsection \<open>Python values and objects\<close>

text \<open>
  The exceptions that the modelled functions can raise: a failed \<^verbatim>\<open>assert\<close>, the read
  of an attribute that the object does not define, and \<^verbatim>\<open>in\<close> applied to an object
  that is not a container. Assertions are modelled as enabled.
\<close>

datatype pyerror = AssertionError | AttributeError | TypeError

text \<open>The Python values that the modelled functions inspect.\<close>

datatype pyval =
    PyNone
  | PyBool bool
  | PyInt int
  | PyStr string
  | PyTuple "pyval list"
  | PyList "pyval list"
  | PyCell pyval

text \<open>
  \<^verbatim>\<open>isinstance(v, tuple)\<close>, \<^verbatim>\<open>isinstance(v, str)\<close> and the items that iterating over a
  tuple or a list yields.
\<close>

fun isinstance_tuple :: "pyval \<Rightarrow> bool" where
  "isinstance_tuple (PyTuple _) = True"
| "isinstance_tuple _ = False"

fun isinstance_str :: "pyval \<Rightarrow> bool" where
  "isinstance_str (PyStr _) = True"
| "isinstance_str _ = False"

fun items :: "pyval \<Rightarrow> pyval list" where
  "items (PyTuple xs) = xs"
| "items (PyList xs) = xs"
| "items _ = []"

text \<open>
  The expression \<^verbatim>\<open>'.' in v\<close>: a substring test on a string (for a needle of one
  character, membership of that character), an item test on a tuple or a list, and a
  \<^verbatim>\<open>TypeError\<close> on a value that is not a container.
\<close>

fun py_in_dot :: "pyval \<Rightarrow> pyerror + bool" where
  "py_in_dot (PyStr s) = Inr (CHR ''.'' \<in> set s)"
| "py_in_dot (PyTuple xs) = Inr (PyStr ''.'' \<in> set xs)"
| "py_in_dot (PyList xs) = Inr (PyStr ''.'' \<in> set xs)"
| "py_in_dot _ = Inl TypeError"

text \<open>
  A code object, with the attributes read here: the bit field \<^verbatim>\<open>co_flags\<close> (a Python
  integer) and the two names.
\<close>

record codeobj =
  co_flags :: int
  co_name :: string
  co_qualname :: string

text \<open>
  An arbitrary object, as far as the testers of \<^verbatim>\<open>utilfunctest.py\<close> observe it:
  \<^item> \<open>callable\<close> is the result of the builtin \<^verbatim>\<open>callable(func)\<close>;
  \<^item> \<open>closure_dunder\<close> is the attribute \<^verbatim>\<open>__closure__\<close>: \<open>None\<close> when the object
    does not define it (a C-based callable), \<open>Some PyNone\<close> for a pure-Python callable
    that is no closure, \<open>Some\<close> of a tuple of cells for a closure;
  \<^item> \<open>qualname_dunder\<close> is the attribute \<^verbatim>\<open>__qualname__\<close>, \<open>None\<close> when the object
    does not define it;
  \<^item> \<open>code_dunder\<close> is the attribute \<^verbatim>\<open>__code__\<close>, \<open>None\<close> when the object does not
    define it.
\<close>

record pyobject =
  callable :: bool
  closure_dunder :: "pyval option"
  qualname_dunder :: "pyval option"
  code_dunder :: "codeobj option"

subsection \<open>The callable testers of \<^verbatim>\<open>beartype._util.func.utilfunctest\<close>\<close>

text \<open>
  The flags of the standard library's \<^verbatim>\<open>inspect\<close> module: \<^verbatim>\<open>CO_GENERATOR\<close> is
  \<^verbatim>\<open>0x20\<close>, \<^verbatim>\<open>CO_COROUTINE\<close> is \<^verbatim>\<open>0x80\<close> and \<^verbatim>\<open>CO_ASYNC_GENERATOR\<close> is
  \<^verbatim>\<open>0x200\<close>.
\<close>

definition CO_GENERATOR :: int where
  "CO_GENERATOR = 32"

definition CO_COROUTINE :: int where
  "CO_COROUTINE = 128"

definition CO_ASYNC_GENERATOR :: int where
  "CO_ASYNC_GENERATOR = 512"

text \<open>
  The helpers \<^verbatim>\<open>get_func_codeobj_or_none\<close> and \<^verbatim>\<open>get_func_codeobj_name\<close> of
  \<^verbatim>\<open>beartype._util.func.utilfunccodeobj\<close>, the flag \<^verbatim>\<open>IS_PYTHON_AT_MOST_3_10\<close> of
  \<^verbatim>\<open>beartype._util.py.utilpyversion\<close> and the value of
  \<^verbatim>\<open>CONTEXTLIB_CONTEXTMANAGER_CODEOBJ_NAME\<close> (computed at import time through the second
  helper) are not among the sources: each tester takes the ones it uses as parameters,
  under their own names. In Python \<^verbatim>\<open>&\<close> binds tighter than \<^verbatim>\<open>!=\<close>, so
  \<^verbatim>\<open>flags & CO_COROUTINE != 0\<close> compares the masked flags with zero.
\<close>

definition is_func_async :: "(pyobject \<Rightarrow> codeobj option) \<Rightarrow> pyobject \<Rightarrow> bool" where
  "is_func_async get_func_codeobj_or_none func =
     (case get_func_codeobj_or_none func of
        None \<Rightarrow> False
      | Some func_codeobj \<Rightarrow>
          (let func_codeobj_flags = co_flags func_codeobj
           in func_codeobj_flags AND CO_COROUTINE \<noteq> 0 \<or>
              func_codeobj_flags AND CO_ASYNC_GENERATOR \<noteq> 0))"

definition is_func_coro :: "(pyobject \<Rightarrow> codeobj option) \<Rightarrow> pyobject \<Rightarrow> bool" where
  "is_func_coro get_func_codeobj_or_none func =
     (case get_func_codeobj_or_none func of
        None \<Rightarrow> False
      | Some func_codeobj \<Rightarrow> co_flags func_codeobj AND CO_COROUTINE \<noteq> 0)"

definition is_func_async_generator ::
  "(pyobject \<Rightarrow> codeobj option) \<Rightarrow> pyobject \<Rightarrow> bool" where
  "is_func_async_generator get_func_codeobj_or_none func =
     (case get_func_codeobj_or_none func of
        None \<Rightarrow> False
      | Some func_codeobj \<Rightarrow> co_flags func_codeobj AND CO_ASYNC_GENERATOR \<noteq> 0)"

text \<open>
  \<^verbatim>\<open>is_func_sync_generator\<close> tests \<^verbatim>\<open>callable(func)\<close> first and returns \<^verbatim>\<open>False\<close>
  for an object that is not callable; it asserts nothing.
\<close>

definition is_func_sync_generator ::
  "(pyobject \<Rightarrow> codeobj option) \<Rightarrow> pyobject \<Rightarrow> bool" where
  "is_func_sync_generator get_func_codeobj_or_none func =
     (if \<not> callable func then False
      else (case get_func_codeobj_or_none func of
              None \<Rightarrow> False
            | Some func_codeobj \<Rightarrow> co_flags func_codeobj AND CO_GENERATOR \<noteq> 0))"

text \<open>
  \<^verbatim>\<open>is_func_closure\<close> asserts that its argument is callable, then returns
  \<^verbatim>\<open>getattr(func, '__closure__', None) is not None\<close>.
\<close>

definition is_func_closure :: "pyobject \<Rightarrow> pyerror + bool" where
  "is_func_closure func =
     (if \<not> callable func then Inl AssertionError
      else Inr (case closure_dunder func of None \<Rightarrow> False | Some v \<Rightarrow> v \<noteq> PyNone))"

text \<open>
  \<^verbatim>\<open>is_func_nested\<close> asserts that its argument is callable, then returns
  \<^verbatim>\<open>is_func_closure(func) or '.' in func.__qualname__\<close>: the right operand is
  evaluated only when the left one is false.
\<close>

definition is_func_nested :: "pyobject \<Rightarrow> pyerror + bool" where
  "is_func_nested func =
     (if \<not> callable func then Inl AssertionError
      else (case is_func_closure func of
              Inl e \<Rightarrow> Inl e
            | Inr True \<Rightarrow> Inr True
            | Inr False \<Rightarrow>
                (case qualname_dunder func of
                   None \<Rightarrow> Inl AttributeError
                 | Some q \<Rightarrow> py_in_dot q)))"

text \<open>
  \<^verbatim>\<open>is_func_contextlib_contextmanager\<close>: the guard is
  \<^verbatim>\<open>IS_PYTHON_AT_MOST_3_10 or not is_func_closure(func)\<close>, so \<^verbatim>\<open>is_func_closure\<close>
  (and its assertion) runs only when the flag is false.
\<close>

definition is_func_contextlib_contextmanager ::
  "bool \<Rightarrow> string \<Rightarrow> (pyobject \<Rightarrow> codeobj option) \<Rightarrow> (codeobj \<Rightarrow> string) \<Rightarrow>
   pyobject \<Rightarrow> pyerror + bool" where
  "is_func_contextlib_contextmanager IS_PYTHON_AT_MOST_3_10
       CONTEXTLIB_CONTEXTMANAGER_CODEOBJ_NAME get_func_codeobj_or_none
       get_func_codeobj_name func =
     (if IS_PYTHON_AT_MOST_3_10 then Inr False
      else (case is_func_closure func of
              Inl e \<Rightarrow> Inl e
            | Inr False \<Rightarrow> Inr False
            | Inr True \<Rightarrow>
                (case get_func_codeobj_or_none func of
                   None \<Rightarrow> Inr False
                 | Some func_codeobj \<Rightarrow>
                     Inr (get_func_codeobj_name func_codeobj =
                          CONTEXTLIB_CONTEXTMANAGER_CODEOBJ_NAME))))"

text \<open>
  Objects to run the testers on: a coroutine function
  (\<^verbatim>\<open>async def fetch(): ...\<close>, flags \<^verbatim>\<open>CO_OPTIMIZED | CO_NEWLOCALS | CO_COROUTINE\<close>),
  the builtin \<^verbatim>\<open>len\<close>, which has no code object, an integer, which is not callable,
  and the closure that \<^verbatim>\<open>contextlib.contextmanager\<close> returns for a decorated
  generator function \<^verbatim>\<open>managed\<close>.
\<close>

definition coroutine_function :: pyobject where
  "coroutine_function =
     \<lparr>callable = True, closure_dunder = Some PyNone,
      qualname_dunder = Some (PyStr ''fetch''),
      code_dunder = Some \<lparr>co_flags = 131, co_name = ''fetch'', co_qualname = ''fetch''\<rparr>\<rparr>"

definition builtin_len :: pyobject where
  "builtin_len =
     \<lparr>callable = True, closure_dunder = None, qualname_dunder = Some (PyStr ''len''),
      code_dunder = None\<rparr>"

definition an_integer :: pyobject where
  "an_integer =
     \<lparr>callable = False, closure_dunder = None, qualname_dunder = None, code_dunder = None\<rparr>"

definition contextmanager_closure :: pyobject where
  "contextmanager_closure =
     \<lparr>callable = True, closure_dunder = Some (PyTuple [PyCell PyNone]),
      qualname_dunder = Some (PyStr ''managed''),
      code_dunder = Some \<lparr>co_flags = 31, co_name = ''helper'',
                           co_qualname = ''contextmanager.<locals>.helper''\<rparr>\<rparr>"

subsection \<open>The unsatisfied-pith metadata of the test data\<close>

text \<open>
  An instance of \<^verbatim>\<open>PepHintPithUnsatisfiedMetadata\<close>: the three attributes that
  \<^verbatim>\<open>__init__\<close> sets.
\<close>

record PepHintPithUnsatisfiedMetadata =
  pith :: pyval
  exception_str_match_regexes :: pyval
  exception_str_not_match_regexes :: pyval

text \<open>
  \<^verbatim>\<open>PepHintPithUnsatisfiedMetadata.__init__\<close>. An optional parameter that the caller
  does not pass is \<open>None\<close> and takes its default, the empty tuple. The four assertions
  run in the source's order; the constructor then stores its three parameters.
\<close>

definition init_PepHintPithUnsatisfiedMetadata ::
  "pyval \<Rightarrow> pyval option \<Rightarrow> pyval option \<Rightarrow> pyerror + PepHintPithUnsatisfiedMetadata" where
  "init_PepHintPithUnsatisfiedMetadata pith_arg match_arg not_match_arg =
     (let exception_str_match_regexes_arg =
            (case match_arg of None \<Rightarrow> PyTuple [] | Some v \<Rightarrow> v);
          exception_str_not_match_regexes_arg =
            (case not_match_arg of None \<Rightarrow> PyTuple [] | Some v \<Rightarrow> v)
      in if \<not> isinstance_tuple exception_str_match_regexes_arg then Inl AssertionError
         else if \<not> isinstance_tuple exception_str_not_match_regexes_arg
           then Inl AssertionError
         else if \<not> list_all isinstance_str (items exception_str_match_regexes_arg)
           then Inl AssertionError
         else if \<not> list_all isinstance_str (items exception_str_not_match_regexes_arg)
           then Inl AssertionError
         else Inr \<lparr>pith = pith_arg,
                   exception_str_match_regexes = exception_str_match_regexes_arg,
                   exception_str_not_match_regexes = exception_str_not_match_regexes_arg\<rparr>)"

subsection \<open>The shape classifier\<close>

text \<open>
  Modelled from the spec: the hint expressions that \<^verbatim>\<open>classify\<close> takes are not among
  the sources. A hint is an immutable schema expression; this type has one form for each
  shape that the spec's data model names, and one for every expression that the
  classifier does not recognize.
\<close>

datatype hint =
    PrimitiveHint string
  | UnionHint "hint list"
  | SequenceHint hint
  | FixedTupleHint "hint list"
  | MappingHint hint hint
  | TypeVariableHint "hint option" "hint list"
  | ForwardRefHint string
  | LiteralHint "pyval list"
  | ProtocolHint "hint list" hint
  | UnrecognizedHint string

text \<open>
  Modelled from the spec: \<^verbatim>\<open>HintShape\<close> is not among the sources. It is the tagged
  variant of the spec's data model: Primitive(type-id), Union(ordered set of Hint),
  Sequence(element Hint), FixedTuple(ordered sequence of Hint), Mapping(key Hint, value
  Hint), TypeVariable(bound, constraints), ForwardRef(name, resolved), Literal(set of
  values), Protocol(parameter Hints, return Hint), Unsupported(reason).
\<close>

datatype HintShape =
    PrimitiveShape string
  | UnionShape "hint list"
  | SequenceShape hint
  | FixedTupleShape "hint list"
  | MappingShape hint hint
  | TypeVariableShape "hint option" "hint list"
  | ForwardRefShape string "hint option"
  | LiteralShape "pyval list"
  | ProtocolShape "hint list" hint
  | UnsupportedShape string

text \<open>
  Modelled from the spec: the flattening of unions is not among the sources. ``Nested
  unions are flattened (union-of-unions becomes one union)'': the members of a hint are
  the members of its members when it is a union, and the hint itself otherwise.
\<close>

fun union_members :: "hint \<Rightarrow> hint list" where
  "union_members (UnionHint hs) = concat (map union_members hs)"
| "union_members h = [h]"

text \<open>
  Modelled from the spec: the ordered sets of the data model are not among the sources.
  An ordered set keeps the first occurrence of each element, in the order of the list.
\<close>

definition ordered_set :: "'a list \<Rightarrow> 'a list" where
  "ordered_set xs = foldl (\<lambda>seen x. if x \<in> set seen then seen else seen @ [x]) [] xs"

lemma set_foldl_ordered_set:
  "set (foldl (\<lambda>seen x. if x \<in> set seen then seen else seen @ [x]) acc xs) = set acc \<union> set xs"
  by (induction xs arbitrary: acc) auto

lemma set_ordered_set: "set (ordered_set xs) = set xs"
  by (simp add: ordered_set_def set_foldl_ordered_set)

lemma size_union_members: "m \<in> set (union_members h) \<Longrightarrow> size m \<le> size h"
proof (induction h rule: union_members.induct)
  case (1 hs)
  then obtain h where h: "h \<in> set hs" "m \<in> set (union_members h)"
    by auto
  with 1 have "size m \<le> size h" by blast
  also from h(1) have "size h < size (UnionHint hs)"
    by (simp add: less_Suc_eq_le size_list_estimation')
  finally show ?case by simp
qed simp_all

lemma size_flattened_member:
  assumes "m \<in> set (concat (map union_members hs))"
  shows "size m < size (UnionHint hs)"
proof -
  from assms obtain h where h: "h \<in> set hs" "m \<in> set (union_members h)"
    by auto
  from h(2) have "size m \<le> size h" by (rule size_union_members)
  also from h(1) have "size h < size (UnionHint hs)"
    by (simp add: less_Suc_eq_le size_list_estimation')
  finally show ?thesis .
qed

text \<open>
  Modelled from the spec: \<^verbatim>\<open>classify\<close> is not among the sources. It is a pure, total
  function from hints to shapes. A union is flattened and classified as the union of the
  ordered set of its members, except that ``a union containing only one member
  degenerates to that member's shape''. A forward reference is classified without being
  resolved, and an expression that is not recognized is classified as Unsupported
  rather than raising.
\<close>

function classify :: "hint \<Rightarrow> HintShape" where
  "classify (UnionHint hs) =
     (case ordered_set (concat (map union_members hs)) of
        [m] \<Rightarrow> classify m
      | ms \<Rightarrow> UnionShape ms)"
| "classify (PrimitiveHint t) = PrimitiveShape t"
| "classify (SequenceHint e) = SequenceShape e"
| "classify (FixedTupleHint es) = FixedTupleShape es"
| "classify (MappingHint k v) = MappingShape k v"
| "classify (TypeVariableHint b cs) = TypeVariableShape b (ordered_set cs)"
| "classify (ForwardRefHint n) = ForwardRefShape n None"
| "classify (LiteralHint vs) = LiteralShape (ordered_set vs)"
| "classify (ProtocolHint ps r) = ProtocolShape ps r"
| "classify (UnrecognizedHint reason) = UnsupportedShape reason"
  by pat_completeness auto
termination
proof (relation "measure size")
  show "wf (measure size)" by simp
next
  fix hs :: "hint list" and m :: hint and rest :: "hint list"
  assume "ordered_set (concat (map union_members hs)) = m # rest"
  then have "m \<in> set (ordered_set (concat (map union_members hs)))" by simp
  then have "m \<in> set (concat (map union_members hs))"
    by (simp only: set_ordered_set)
  then have "size m < size (UnionHint hs)" by (rule size_flattened_member)
  then show "(m, UnionHint hs) \<in> measure size" by simp
qed

section \<open>Properties\<close>

subsection \<open>The exception hierarchy\<close>

lemmas hierarchy_defs =
  issubclass_def mro_def raised_at_decoration_time_def raised_at_call_time_def
  internal_invariant_kind_def raised_at_cave_usage_time_def families_of_def
  eval_nat_numeral

lemma mro_reaches_root: "base (last (mro c)) = None"
  by (cases c) (simp_all add: hierarchy_defs)

text \<open>
  C3. The exception kind for unsupported hints,
  \<^verbatim>\<open>BeartypeDecorHintPepUnsupportedException\<close>, is a subclass of the decoration-time base
  \<^verbatim>\<open>BeartypeDecorException\<close> and is not a subclass of the call-time base
  \<^verbatim>\<open>BeartypeCallException\<close>.
\<close>

theorem unsupported_hint_is_decoration_time:
  "issubclass BeartypeDecorHintPepUnsupportedException BeartypeDecorException \<and>
   \<not> issubclass BeartypeDecorHintPepUnsupportedException BeartypeCallException"
  by (simp add: hierarchy_defs)

text \<open>
  C4. \<^verbatim>\<open>BeartypeCallCheckPepParamException\<close> and \<^verbatim>\<open>BeartypeCallCheckPepReturnException\<close>
  are both subclasses of the call-time base \<^verbatim>\<open>BeartypeCallException\<close>, and neither is a
  subclass of the other.
\<close>

theorem param_and_return_violations_distinct:
  "issubclass BeartypeCallCheckPepParamException BeartypeCallException \<and>
   issubclass BeartypeCallCheckPepReturnException BeartypeCallException \<and>
   \<not> issubclass BeartypeCallCheckPepParamException BeartypeCallCheckPepReturnException \<and>
   \<not> issubclass BeartypeCallCheckPepReturnException BeartypeCallCheckPepParamException"
  by (simp add: hierarchy_defs)

text \<open>
  C1, as stated. Every concrete exception class in the hierarchy rooted at
  \<^verbatim>\<open>BeartypeException\<close> is raised at decoration time or at call time, or is an
  internal-invariant kind. This fails: \<^verbatim>\<open>BeartypeCaveNoneTypeOrKeyException\<close> is a
  concrete class of the hierarchy, raised when the \<^verbatim>\<open>beartype.cave.NoneTypeOr\<close>
  factory is indexed with an invalid key, and it belongs to none of the three families.
\<close>

theorem cave_exception_outside_phases:
  "issubclass BeartypeCaveNoneTypeOrKeyException BeartypeException \<and>
   \<not> is_abstract BeartypeCaveNoneTypeOrKeyException \<and>
   \<not> raised_at_decoration_time BeartypeCaveNoneTypeOrKeyException \<and>
   \<not> raised_at_call_time BeartypeCaveNoneTypeOrKeyException \<and>
   \<not> internal_invariant_kind BeartypeCaveNoneTypeOrKeyException"
  by (simp add: hierarchy_defs)

text \<open>
  C1, amended. The hierarchy has four families, not three: every concrete exception class
  in the hierarchy rooted at \<^verbatim>\<open>BeartypeException\<close> is a subclass of exactly one of
  \<^verbatim>\<open>BeartypeCaveException\<close> (usage time of the \<^verbatim>\<open>beartype.cave\<close> types),
  \<^verbatim>\<open>BeartypeDecorException\<close> (decoration time), \<^verbatim>\<open>BeartypeCallException\<close> (call
  time) and \<^verbatim>\<open>_BeartypeUtilException\<close> (internal, any phase).
\<close>

theorem taxonomy_partition:
  assumes "issubclass c BeartypeException" and "\<not> is_abstract c"
  shows "length (families_of c) = 1 \<and>
    (raised_at_cave_usage_time c \<or> raised_at_decoration_time c \<or>
     raised_at_call_time c \<or> internal_invariant_kind c)"
  using assms by (cases c) (simp_all add: hierarchy_defs)

theorem taxonomy_partition_witness:
  "issubclass BeartypeCaveNoneTypeOrMutabilityException BeartypeException \<and>
   \<not> is_abstract BeartypeCaveNoneTypeOrMutabilityException \<and>
   families_of BeartypeCaveNoneTypeOrMutabilityException = [BeartypeCaveException] \<and>
   raised_at_cave_usage_time BeartypeCaveNoneTypeOrMutabilityException"
proof -
  have sub: "issubclass BeartypeCaveNoneTypeOrMutabilityException BeartypeException"
    by (simp add: hierarchy_defs)
  have conc: "\<not> is_abstract BeartypeCaveNoneTypeOrMutabilityException"
    by simp
  from taxonomy_partition [OF sub conc] sub conc show ?thesis
    by (simp add: hierarchy_defs)
qed

text \<open>
  C2. If the re-derivation finds that the pith apparently satisfies the hint, the
  exception raised is \<^verbatim>\<open>_BeartypeUtilRaisePepDesynchronizationException\<close>, a subclass of
  the internal \<^verbatim>\<open>_BeartypeUtilException\<close> family, and not a subclass of the call-time
  base of the user-facing type violations.
\<close>

theorem desynchronization_is_internal:
  assumes "satisfies p h"
  shows "raise_pep_call_exception satisfies site p h =
           Priv_BeartypeUtilRaisePepDesynchronizationException \<and>
         issubclass (raise_pep_call_exception satisfies site p h)
           Priv_BeartypeUtilException \<and>
         \<not> issubclass (raise_pep_call_exception satisfies site p h)
           BeartypeCallException"
  using assms by (simp add: raise_pep_call_exception_def hierarchy_defs)

theorem desynchronization_is_internal_witness:
  "raise_pep_call_exception (\<lambda>(p::int) (h::int list). p \<in> set h) Return 3 [1, 3] =
     Priv_BeartypeUtilRaisePepDesynchronizationException \<and>
   issubclass (raise_pep_call_exception (\<lambda>(p::int) (h::int list). p \<in> set h) Return 3 [1, 3])
     Priv_BeartypeUtilException"
proof -
  have sat: "(\<lambda>(p::int) (h::int list). p \<in> set h) 3 [1, 3]"
    by simp
  from desynchronization_is_internal
         [of "\<lambda>(p::int) (h::int list). p \<in> set h" 3 "[1, 3]" Return, OF sat]
  show ?thesis by blast
qed

subsection \<open>The callable testers\<close>

lemma CO_COROUTINE_bit: "flags AND CO_COROUTINE \<noteq> 0 \<longleftrightarrow> bit flags 7"
  using and_exp_eq_0_iff_not_bit [of flags 7] by (simp add: CO_COROUTINE_def)

lemma CO_ASYNC_GENERATOR_bit: "flags AND CO_ASYNC_GENERATOR \<noteq> 0 \<longleftrightarrow> bit flags 9"
  using and_exp_eq_0_iff_not_bit [of flags 9] by (simp add: CO_ASYNC_GENERATOR_def)

lemma is_func_async_builtin: "is_func_async code_dunder builtin_len = False"
  by (simp add: is_func_async_def builtin_len_def)

lemma is_func_async_coroutine: "is_func_async code_dunder coroutine_function = True"
  by (simp add: is_func_async_def coroutine_function_def CO_COROUTINE_def)

text \<open>
  C5. \<^verbatim>\<open>is_func_async\<close> is a total boolean function: it returns \<^verbatim>\<open>True\<close> if and only
  if the object has a code object whose flags include \<^verbatim>\<open>CO_COROUTINE\<close> (bit 7, the
  value \<^verbatim>\<open>0x80\<close>) or \<^verbatim>\<open>CO_ASYNC_GENERATOR\<close> (bit 9, the value \<^verbatim>\<open>0x200\<close>), and it
  returns \<^verbatim>\<open>False\<close> for every object without a code object. The result type has no
  error: the function raises nothing of its own.
\<close>

theorem is_func_async_classification:
  "(is_func_async get_func_codeobj_or_none f \<longleftrightarrow>
      (\<exists>co. get_func_codeobj_or_none f = Some co \<and>
            (bit (co_flags co) 7 \<or> bit (co_flags co) 9))) \<and>
   (get_func_codeobj_or_none f = None \<longrightarrow> is_func_async get_func_codeobj_or_none f = False)"
  by (simp add: is_func_async_def Let_def CO_COROUTINE_bit CO_ASYNC_GENERATOR_bit
      split: option.split)

theorem is_func_async_classification_witness:
  "is_func_async code_dunder coroutine_function \<and>
   code_dunder builtin_len = None \<and>
   \<not> is_func_async code_dunder builtin_len"
proof -
  have no_code: "code_dunder builtin_len = None"
    by (simp add: builtin_len_def)
  have flags: "\<exists>co. code_dunder coroutine_function = Some co \<and>
      (bit (co_flags co) 7 \<or> bit (co_flags co) 9)"
    by (simp add: coroutine_function_def)
  from is_func_async_classification [of code_dunder coroutine_function] flags
  have "is_func_async code_dunder coroutine_function" by blast
  moreover from is_func_async_classification [of code_dunder builtin_len] no_code
  have "\<not> is_func_async code_dunder builtin_len" by simp
  ultimately show ?thesis using no_code by simp
qed

text \<open>
  C8. For every object, \<^verbatim>\<open>is_func_async\<close> returns \<^verbatim>\<open>True\<close> if and only if
  \<^verbatim>\<open>is_func_coro\<close> or \<^verbatim>\<open>is_func_async_generator\<close> does: the inlined tests are the
  disjunction of the two dedicated testers.
\<close>

theorem is_func_async_inlines_testers:
  "is_func_async get_func_codeobj_or_none f \<longleftrightarrow>
     is_func_coro get_func_codeobj_or_none f \<or>
     is_func_async_generator get_func_codeobj_or_none f"
  by (simp add: is_func_async_def is_func_coro_def is_func_async_generator_def Let_def
      split: option.split)

theorem is_func_async_inlines_testers_witness:
  "is_func_async code_dunder coroutine_function \<and>
   is_func_coro code_dunder coroutine_function \<and>
   \<not> is_func_async_generator code_dunder coroutine_function"
proof -
  have coro: "is_func_coro code_dunder coroutine_function"
    by (simp add: is_func_coro_def coroutine_function_def CO_COROUTINE_def)
  have gen: "\<not> is_func_async_generator code_dunder coroutine_function"
    by (simp add: is_func_async_generator_def coroutine_function_def CO_ASYNC_GENERATOR_def)
  from is_func_async_inlines_testers [of code_dunder coroutine_function] coro gen
  show ?thesis by simp
qed

text \<open>
  Without the flag, the closure of \<^verbatim>\<open>contextlib.contextmanager\<close> is detected, and the
  assertion of \<^verbatim>\<open>is_func_closure\<close> fails on an object that is not callable.
\<close>

lemma contextmanager_detected_after_3_10:
  "is_func_contextlib_contextmanager False ''contextmanager.<locals>.helper''
     code_dunder co_qualname contextmanager_closure = Inr True"
  by (simp add: is_func_contextlib_contextmanager_def is_func_closure_def
      contextmanager_closure_def)

lemma contextmanager_asserts_after_3_10:
  "is_func_contextlib_contextmanager False ''contextmanager.<locals>.helper''
     code_dunder co_qualname an_integer = Inl AssertionError"
  by (simp add: is_func_contextlib_contextmanager_def is_func_closure_def an_integer_def)

text \<open>
  C9. Whenever \<^verbatim>\<open>IS_PYTHON_AT_MOST_3_10\<close> is true,
  \<^verbatim>\<open>is_func_contextlib_contextmanager\<close> returns \<^verbatim>\<open>False\<close> for every input.
\<close>

theorem contextmanager_undetected_at_most_3_10:
  assumes "IS_PYTHON_AT_MOST_3_10"
  shows "is_func_contextlib_contextmanager IS_PYTHON_AT_MOST_3_10
           CONTEXTLIB_CONTEXTMANAGER_CODEOBJ_NAME get_func_codeobj_or_none
           get_func_codeobj_name f = Inr False"
  using assms by (simp add: is_func_contextlib_contextmanager_def)

theorem contextmanager_undetected_at_most_3_10_witness:
  "is_func_contextlib_contextmanager True ''contextmanager.<locals>.helper''
     code_dunder co_qualname contextmanager_closure = Inr False \<and>
   is_func_contextlib_contextmanager True ''contextmanager.<locals>.helper''
     code_dunder co_qualname an_integer = Inr False"
  using contextmanager_undetected_at_most_3_10
          [of True "''contextmanager.<locals>.helper''" code_dunder co_qualname
             contextmanager_closure]
        contextmanager_undetected_at_most_3_10
          [of True "''contextmanager.<locals>.helper''" code_dunder co_qualname an_integer]
  by simp

text \<open>
  A nested callable need not be a closure: a method is nested by its qualified name.
\<close>

lemma nested_but_no_closure:
  "is_func_closure (coroutine_function\<lparr>qualname_dunder := Some (PyStr ''Client.fetch'')\<rparr>) =
     Inr False \<and>
   is_func_nested (coroutine_function\<lparr>qualname_dunder := Some (PyStr ''Client.fetch'')\<rparr>) =
     Inr True"
  by (simp add: is_func_closure_def is_func_nested_def coroutine_function_def)

text \<open>
  C10. For every callable, if \<^verbatim>\<open>is_func_closure\<close> returns \<^verbatim>\<open>True\<close> then
  \<^verbatim>\<open>is_func_nested\<close> returns \<^verbatim>\<open>True\<close>.
\<close>

theorem closure_implies_nested:
  assumes "is_func_closure f = Inr True"
  shows "is_func_nested f = Inr True"
  using assms by (simp add: is_func_nested_def is_func_closure_def split: if_splits)

theorem closure_implies_nested_witness:
  "is_func_closure contextmanager_closure = Inr True \<and>
   is_func_nested contextmanager_closure = Inr True"
proof -
  have closure: "is_func_closure contextmanager_closure = Inr True"
    by (simp add: is_func_closure_def contextmanager_closure_def)
  from closure_implies_nested [OF closure] closure show ?thesis by simp
qed

subsection \<open>The unsatisfied-pith metadata\<close>

lemma isinstance_tuple_iff: "isinstance_tuple v \<longleftrightarrow> (\<exists>xs. v = PyTuple xs)"
  by (cases v) simp_all

lemma init_rejects_list:
  "init_PepHintPithUnsatisfiedMetadata (PyInt 3) (Some (PyList [PyStr ''int''])) None =
     Inl AssertionError"
  by (simp add: init_PepHintPithUnsatisfiedMetadata_def)

lemma init_rejects_item_not_str:
  "init_PepHintPithUnsatisfiedMetadata (PyInt 3) None (Some (PyTuple [PyStr ''int'', PyInt 2])) =
     Inl AssertionError"
  by (simp add: init_PepHintPithUnsatisfiedMetadata_def)

text \<open>
  C6. Every successfully constructed \<^verbatim>\<open>PepHintPithUnsatisfiedMetadata\<close> stores the pith
  unchanged, together with the match and not-match assertions that the caller passed:
  each of the fields \<^verbatim>\<open>exception_str_match_regexes\<close> and
  \<^verbatim>\<open>exception_str_not_match_regexes\<close> is the argument passed for it, or the empty tuple
  when the argument is omitted (each default on its own), and is a tuple whose items are
  all strings. Conversely the construction succeeds whenever both values are tuples of
  strings.
\<close>

theorem unsatisfied_metadata_invariant:
  "(init_PepHintPithUnsatisfiedMetadata p m n = Inr r \<longrightarrow>
      pith r = p \<and>
      exception_str_match_regexes r = (case m of None \<Rightarrow> PyTuple [] | Some v \<Rightarrow> v) \<and>
      exception_str_not_match_regexes r = (case n of None \<Rightarrow> PyTuple [] | Some v \<Rightarrow> v) \<and>
      (\<exists>ms. exception_str_match_regexes r = PyTuple ms \<and> list_all isinstance_str ms) \<and>
      (\<exists>ns. exception_str_not_match_regexes r = PyTuple ns \<and> list_all isinstance_str ns)) \<and>
   ((\<exists>ms. (case m of None \<Rightarrow> PyTuple [] | Some v \<Rightarrow> v) = PyTuple ms \<and>
          list_all isinstance_str ms) \<and>
    (\<exists>ns. (case n of None \<Rightarrow> PyTuple [] | Some v \<Rightarrow> v) = PyTuple ns \<and>
          list_all isinstance_str ns) \<longrightarrow>
      init_PepHintPithUnsatisfiedMetadata p m n =
        Inr \<lparr>pith = p,
             exception_str_match_regexes = (case m of None \<Rightarrow> PyTuple [] | Some v \<Rightarrow> v),
             exception_str_not_match_regexes =
               (case n of None \<Rightarrow> PyTuple [] | Some v \<Rightarrow> v)\<rparr>) \<and>
   init_PepHintPithUnsatisfiedMetadata p None None =
     Inr \<lparr>pith = p, exception_str_match_regexes = PyTuple [],
          exception_str_not_match_regexes = PyTuple []\<rparr>"
proof (intro conjI impI)
  assume built: "init_PepHintPithUnsatisfiedMetadata p m n = Inr r"
  then show "pith r = p"
    by (auto simp: init_PepHintPithUnsatisfiedMetadata_def Let_def split: if_splits)
  from built
  show stored_match:
    "exception_str_match_regexes r = (case m of None \<Rightarrow> PyTuple [] | Some v \<Rightarrow> v)"
    by (auto simp: init_PepHintPithUnsatisfiedMetadata_def Let_def split: if_splits)
  from built
  show stored_not_match:
    "exception_str_not_match_regexes r = (case n of None \<Rightarrow> PyTuple [] | Some v \<Rightarrow> v)"
    by (auto simp: init_PepHintPithUnsatisfiedMetadata_def Let_def split: if_splits)
  from built
  show "\<exists>ms. exception_str_match_regexes r = PyTuple ms \<and> list_all isinstance_str ms"
    by (auto simp: init_PepHintPithUnsatisfiedMetadata_def Let_def isinstance_tuple_iff
        split: if_splits)
  from built
  show "\<exists>ns. exception_str_not_match_regexes r = PyTuple ns \<and> list_all isinstance_str ns"
    by (auto simp: init_PepHintPithUnsatisfiedMetadata_def Let_def isinstance_tuple_iff
        split: if_splits)
next
  assume "(\<exists>ms. (case m of None \<Rightarrow> PyTuple [] | Some v \<Rightarrow> v) = PyTuple ms \<and>
            list_all isinstance_str ms) \<and>
          (\<exists>ns. (case n of None \<Rightarrow> PyTuple [] | Some v \<Rightarrow> v) = PyTuple ns \<and>
            list_all isinstance_str ns)"
  then show "init_PepHintPithUnsatisfiedMetadata p m n =
        Inr \<lparr>pith = p,
             exception_str_match_regexes = (case m of None \<Rightarrow> PyTuple [] | Some v \<Rightarrow> v),
             exception_str_not_match_regexes =
               (case n of None \<Rightarrow> PyTuple [] | Some v \<Rightarrow> v)\<rparr>"
    by (auto simp: init_PepHintPithUnsatisfiedMetadata_def Let_def)
next
  show "init_PepHintPithUnsatisfiedMetadata p None None =
     Inr \<lparr>pith = p, exception_str_match_regexes = PyTuple [],
          exception_str_not_match_regexes = PyTuple []\<rparr>"
    by (simp add: init_PepHintPithUnsatisfiedMetadata_def Let_def)
qed

theorem unsatisfied_metadata_invariant_witness:
  "init_PepHintPithUnsatisfiedMetadata (PyList [PyInt 1, PyStr ''x''])
     None (Some (PyTuple [PyStr ''int'', PyStr ''index 1''])) =
     Inr \<lparr>pith = PyList [PyInt 1, PyStr ''x''],
          exception_str_match_regexes = PyTuple [],
          exception_str_not_match_regexes = PyTuple [PyStr ''int'', PyStr ''index 1'']\<rparr> \<and>
   pith \<lparr>pith = PyList [PyInt 1, PyStr ''x''],
          exception_str_match_regexes = PyTuple [],
          exception_str_not_match_regexes = PyTuple [PyStr ''int'', PyStr ''index 1'']\<rparr> =
     PyList [PyInt 1, PyStr ''x''] \<and>
   list_all isinstance_str [PyStr ''int'', PyStr ''index 1'']"
proof -
  have strs: "list_all isinstance_str [PyStr ''int'', PyStr ''index 1'']"
    by simp
  have args:
    "(\<exists>ms. (case None :: pyval option of None \<Rightarrow> PyTuple [] | Some v \<Rightarrow> v) = PyTuple ms \<and>
          list_all isinstance_str ms) \<and>
     (\<exists>ns. (case Some (PyTuple [PyStr ''int'', PyStr ''index 1'']) of
              None \<Rightarrow> PyTuple [] | Some v \<Rightarrow> v) = PyTuple ns \<and>
          list_all isinstance_str ns)"
    by simp
  from unsatisfied_metadata_invariant
         [of "PyList [PyInt 1, PyStr ''x'']" None
             "Some (PyTuple [PyStr ''int'', PyStr ''index 1''])"] args
  have "init_PepHintPithUnsatisfiedMetadata (PyList [PyInt 1, PyStr ''x''])
     None (Some (PyTuple [PyStr ''int'', PyStr ''index 1''])) =
     Inr \<lparr>pith = PyList [PyInt 1, PyStr ''x''],
          exception_str_match_regexes = PyTuple [],
          exception_str_not_match_regexes = PyTuple [PyStr ''int'', PyStr ''index 1'']\<rparr>"
    by simp
  with strs show ?thesis by simp
qed

subsection \<open>The shape classifier\<close>

lemma classify_degenerate_union:
  "classify (UnionHint [UnionHint [PrimitiveHint ''int''], PrimitiveHint ''int'']) =
     PrimitiveShape ''int''"
  by (simp add: ordered_set_def)

text \<open>
  C7. Union flattening: for all hints \<open>A\<close>, \<open>B\<close> and \<open>C\<close>, classifying the union of the
  union of \<open>A\<close> and \<open>B\<close> with \<open>C\<close> equals classifying the union of \<open>A\<close>, \<open>B\<close> and \<open>C\<close>.
\<close>

theorem classify_union_flattening:
  "classify (UnionHint [UnionHint [A, B], C]) = classify (UnionHint [A, B, C])"
  by simp

theorem classify_union_flattening_witness:
  "classify (UnionHint [UnionHint [PrimitiveHint ''int'', SequenceHint (PrimitiveHint ''str'')],
                        PrimitiveHint ''int'']) =
     UnionShape [PrimitiveHint ''int'', SequenceHint (PrimitiveHint ''str'')] \<and>
   classify (UnionHint [PrimitiveHint ''int'', SequenceHint (PrimitiveHint ''str''),
                        PrimitiveHint ''int'']) =
     UnionShape [PrimitiveHint ''int'', SequenceHint (PrimitiveHint ''str'')]"
proof -
  have flat:
    "classify (UnionHint [PrimitiveHint ''int'', SequenceHint (PrimitiveHint ''str''),
                          PrimitiveHint ''int'']) =
       UnionShape [PrimitiveHint ''int'', SequenceHint (PrimitiveHint ''str'')]"
    by (simp add: ordered_set_def)
  from classify_union_flattening
         [of "PrimitiveHint ''int''" "SequenceHint (PrimitiveHint ''str'')" "PrimitiveHint ''int''"]
       flat
  show ?thesis by (simp only: simp_thms)
qed

end
